theory Spec2Isabelle
  imports Complex_Main
begin

section \<open>Python values and exceptions\<close>

text \<open>
  The Python exceptions the modelled functions can raise.  \<open>Exception\<close> carries the
  message of a plain \<^verbatim>\<open>raise Exception("...")\<close>.
\<close>

datatype py_exn =
    TypeError
  | ValueError
  | KeyError
  | IndexError
  | NameError
  | UnboundLocalError
  | IntegrityError
  | Exception string

section \<open>Settlement: \<^verbatim>\<open>predict/bets.py\<close>\<close>

text \<open>
  The columns of a row of the predictions table that \<^verbatim>\<open>update_prediction_table\<close> and
  \<^verbatim>\<open>update_bet_results\<close> read or write.  Every column is nullable; \<open>None\<close> is SQL NULL
  (Python \<^verbatim>\<open>None\<close> on the mapped object).  Scores are integers, line and prediction are
  numbers.
\<close>

record prediction_row =
  home_team_score :: "int option"
  away_team_score :: "int option"
  line :: "real option"
  prediction :: "real option"
  bet_result :: "string option"

text \<open>
  The body of the loop of \<^verbatim>\<open>update_bet_results\<close> (bets.py, lines 224-234) for one row.
  Arithmetic or an ordering comparison on \<^verbatim>\<open>None\<close> raises \<^verbatim>\<open>TypeError\<close>; \<^verbatim>\<open>and\<close> is
  short-circuit, so \<^verbatim>\<open>prediction\<close> is only compared when the left conjunct holds.
\<close>

definition settle_row :: "prediction_row \<Rightarrow> py_exn + prediction_row" where
  "settle_row row =
     (case (home_team_score row, away_team_score row, line row) of
        (Some h, Some a, Some l) \<Rightarrow>
          (let score_margin = real_of_int (h - a);
               line_inverse = l * (- 1)
           in if score_margin = line_inverse then Inr (row\<lparr>bet_result := Some ''PUSH''\<rparr>)
              else if score_margin < line_inverse then
                (case prediction row of
                   None \<Rightarrow> Inl TypeError
                 | Some p \<Rightarrow>
                     if p < line_inverse then Inr (row\<lparr>bet_result := Some ''WIN''\<rparr>)
                     else Inr (row\<lparr>bet_result := Some ''LOSS''\<rparr>))
              else if score_margin > line_inverse then
                (case prediction row of
                   None \<Rightarrow> Inl TypeError
                 | Some p \<Rightarrow>
                     if p > line_inverse then Inr (row\<lparr>bet_result := Some ''WIN''\<rparr>)
                     else Inr (row\<lparr>bet_result := Some ''LOSS''\<rparr>))
              else Inr (row\<lparr>bet_result := Some ''LOSS''\<rparr>))
      | _ \<Rightarrow> Inl TypeError)"

text \<open>
  \<^verbatim>\<open>update_bet_results\<close>: the \<^verbatim>\<open>for\<close> loop over the queried objects.  An exception in
  one row ends the call.
\<close>

fun update_bet_results :: "prediction_row list \<Rightarrow> py_exn + prediction_row list" where
  "update_bet_results [] = Inr []"
| "update_bet_results (row # rest) =
     (case settle_row row of
        Inl e \<Rightarrow> Inl e
      | Inr row' \<Rightarrow>
          (case update_bet_results rest of
             Inl e \<Rightarrow> Inl e
           | Inr rest' \<Rightarrow> Inr (row' # rest')))"

text \<open>
  The grading rule in the words of the specification (section 4.5), on the score margin,
  the inverted line and the prediction.
\<close>

definition spec_bet_result :: "real \<Rightarrow> real \<Rightarrow> real \<Rightarrow> string" where
  "spec_bet_result score_margin line_inverse pred =
     (if score_margin = line_inverse then ''PUSH''
      else if (score_margin < line_inverse \<and> pred < line_inverse)
            \<or> (score_margin > line_inverse \<and> pred > line_inverse) then ''WIN''
      else ''LOSS'')"

text \<open>A row all of whose graded inputs are numbers.\<close>

definition numeric_row :: "prediction_row \<Rightarrow> bool" where
  "numeric_row row \<longleftrightarrow>
     home_team_score row \<noteq> None \<and> away_team_score row \<noteq> None \<and>
     line row \<noteq> None \<and> prediction row \<noteq> None"

definition spec_settle :: "prediction_row \<Rightarrow> prediction_row" where
  "spec_settle row =
     row\<lparr>bet_result :=
       Some (spec_bet_result
              (real_of_int (the (home_team_score row) - the (away_team_score row)))
              (- the (line row))
              (the (prediction row)))\<rparr>"

text \<open>
  The two filters of \<^verbatim>\<open>update_prediction_table\<close> (bets.py, lines 203-207) as SQL
  evaluates them: a comparison with NULL is not true, so it selects nothing.
\<close>

definition score_update_filter :: "prediction_row \<Rightarrow> bool" where
  "score_update_filter row \<longleftrightarrow>
     home_team_score row = Some 0 \<or> away_team_score row = Some 0"

definition bet_update_filter :: "prediction_row \<Rightarrow> bool" where
  "bet_update_filter row \<longleftrightarrow>
     bet_result row = None \<and>
     (case home_team_score row of None \<Rightarrow> False | Some h \<Rightarrow> h > 0)"

text \<open>
  The queried objects are the table's rows themselves, so the assignments of
  \<^verbatim>\<open>update_bet_results\<close> land in the table: \<open>write_back\<close> puts the graded objects back at
  the positions the filter selected them from.
\<close>

fun write_back :: "prediction_row list \<Rightarrow> prediction_row list \<Rightarrow> prediction_row list" where
  "write_back [] graded = []"
| "write_back (row # tbl) graded =
     (if bet_update_filter row then
        (case graded of
           [] \<Rightarrow> row # write_back tbl []
         | g # graded' \<Rightarrow> g # write_back tbl graded')
      else row # write_back tbl graded)"

text \<open>
  \<^verbatim>\<open>update_prediction_table\<close> on the predictions table.  The first query's objects are
  only handed to \<^verbatim>\<open>session.add_all\<close> unchanged, which leaves the table as it is.
\<close>

definition update_prediction_table :: "prediction_row list \<Rightarrow> py_exn + prediction_row list" where
  "update_prediction_table pred_tbl =
     (let score_update_objs = filter score_update_filter pred_tbl;
          bet_update_objs = filter bet_update_filter pred_tbl
      in case update_bet_results bet_update_objs of
           Inl e \<Rightarrow> Inl e
         | Inr graded \<Rightarrow> Inr (write_back pred_tbl graded))"

section \<open>Outcome probability: \<^verbatim>\<open>line_probability\<close>\<close>

text \<open>
  What \<^verbatim>\<open>line_probability\<close> returns: a pair of a number and a tag, a bare number, or
  (when no branch of the chain is taken and the function falls off its end) \<^verbatim>\<open>None\<close>.
\<close>

datatype probability = Tagged real string | Untagged real | NoValue

text \<open>
  \<^verbatim>\<open>line_probability\<close> (bets.py, lines 107-115).  The distribution functions of
  \<^verbatim>\<open>scipy.stats.norm(loc, scale)\<close> are the library's, not this repository's: they are the
  parameters \<open>norm_cdf\<close> and \<open>norm_sf\<close>, applied as \<open>norm_cdf loc scale x\<close>.
\<close>

definition line_probability ::
  "(real \<Rightarrow> real \<Rightarrow> real \<Rightarrow> real) \<Rightarrow> (real \<Rightarrow> real \<Rightarrow> real \<Rightarrow> real) \<Rightarrow>
   real \<Rightarrow> real \<Rightarrow> real \<Rightarrow> probability" where
  "line_probability norm_cdf norm_sf pred line_arg std =
     (let line_prediction = - 1 * line_arg
      in if pred > line_prediction then Tagged (norm_cdf pred std line_prediction) ''cdf''
         else if pred < line_prediction then Tagged (norm_sf pred std line_prediction) ''sf''
         else if pred = line_prediction then Untagged 0.5
         else NoValue)"

section \<open>Odds parser: \<^verbatim>\<open>scrapers/line_scraper.py\<close>\<close>

subsection \<open>Builtins\<close>

text \<open>
  Strings are byte strings here; the builtins below are Python's on ASCII text, which
  is what the feed's prices, links and names are made of.
\<close>

definition is_digit :: "char \<Rightarrow> bool" where
  "is_digit c \<longleftrightarrow> 48 \<le> (of_char c :: nat) \<and> (of_char c :: nat) \<le> 57"

definition digit_val :: "char \<Rightarrow> nat" where
  "digit_val c = (of_char c :: nat) - 48"

text \<open>
  The characters \<^verbatim>\<open>int()\<close> strips from an ASCII string: tab, LF, VT, FF, CR and space.
\<close>

definition is_space :: "char \<Rightarrow> bool" where
  "is_space c \<longleftrightarrow> (of_char c :: nat) \<in> {9, 10, 11, 12, 13, 32}"

definition strip :: "string \<Rightarrow> string" where
  "strip s = rev (dropWhile is_space (rev (dropWhile is_space s)))"

text \<open>
  The digits of a decimal literal, left to right: a digit, then digits each optionally
  preceded by one underscore.
\<close>

fun int_digits :: "nat \<Rightarrow> string \<Rightarrow> nat option" where
  "int_digits acc [] = Some acc"
| "int_digits acc [c] = (if is_digit c then Some (10 * acc + digit_val c) else None)"
| "int_digits acc (c # d # cs) =
     (if is_digit c then
        (if d = CHR ''_'' then
           (case cs of
              [] \<Rightarrow> None
            | e # _ \<Rightarrow> if is_digit e then int_digits (10 * acc + digit_val c) cs else None)
         else int_digits (10 * acc + digit_val c) (d # cs))
      else None)"

text \<open>
  \<^verbatim>\<open>int(s)\<close> on a string: surrounding whitespace is stripped, one sign is allowed, and
  anything but a decimal literal raises \<^verbatim>\<open>ValueError\<close> (so do \<^verbatim>\<open>int("")\<close> and
  \<^verbatim>\<open>int("EVEN")\<close>).
\<close>

definition py_int :: "string \<Rightarrow> py_exn + int" where
  "py_int s =
     (let t = strip s;
          (sgn, body) =
            (case t of
               [] \<Rightarrow> (1 :: int, t)
             | c # r \<Rightarrow>
                 if c = CHR ''+'' then (1, r)
                 else if c = CHR ''-'' then (- 1, r)
                 else (1, t))
      in if body = [] then Inl ValueError
         else (case int_digits 0 body of
                 None \<Rightarrow> Inl ValueError
               | Some n \<Rightarrow> Inr (sgn * int n)))"

text \<open>
  \<^verbatim>\<open>str.upper()\<close> on ASCII text: the letters a to z are mapped to A to Z and every other
  byte is left as it is.  (On letters outside ASCII, which the team names of the feed do
  not have, Python's method does more; that is not modelled.)
\<close>

definition upper_char :: "char \<Rightarrow> char" where
  "upper_char c =
     (if 97 \<le> (of_char c :: nat) \<and> (of_char c :: nat) \<le> 122
      then char_of ((of_char c :: nat) - 32) else c)"

definition upper :: "string \<Rightarrow> string" where
  "upper s = map upper_char s"

text \<open>
  The values stored in the parser's variables and in the columns of the result:
  \<^verbatim>\<open>None\<close>, strings, integers, floats and datetimes (a datetime is its position on the
  time line, in minutes).
\<close>

datatype pyval = PNone | PStr string | PInt int | PFloat real | PDatetime int

subsection \<open>The feed\<close>

text \<open>
  The JSON of the feed, typed as the parser reads it (specification, section 6).
  \<open>handicap\<close> is optional: \<open>None\<close> is an absent key, whose lookup raises \<^verbatim>\<open>KeyError\<close>.
\<close>

record competitor =
  name :: string
  home :: bool

record price =
  american :: string
  handicap :: "string option"

record outcome =
  outcome_type :: string
  outcome_price :: price

record market =
  market_description :: string
  period_description :: string
  outcomes :: "outcome list"

record display_group =
  markets :: "market list"

record event =
  description :: string
  event_type :: string
  link :: string
  competitors :: "competitor list"
  displayGroups :: "display_group list"

record feed =
  events :: "event list"

datatype url = RegularURL | PlayoffURL

text \<open>
  What the parser takes from outside the repository: the JSON behind each URL
  (\<^verbatim>\<open>requests.get(url).json()\<close>), the successive readings of \<^verbatim>\<open>datetime.now()\<close>
  (\<open>now n\<close> is the reading of call number \<open>n\<close>, counted from 0),
  \<^verbatim>\<open>datetime.strptime(s, "%Y%m%d%H%M")\<close> and \<^verbatim>\<open>float(s)\<close>; for the last two \<open>None\<close> is a
  \<^verbatim>\<open>ValueError\<close>.
\<close>

record env =
  get_json :: "url \<Rightarrow> feed list"
  now :: "nat \<Rightarrow> int"
  strptime :: "string \<Rightarrow> int option"
  py_float :: "string \<Rightarrow> real option"

definition bovada_json_request :: "env \<Rightarrow> url \<Rightarrow> feed list option" where
  "bovada_json_request e u =
     (let response = get_json e u
      in if \<not> length response \<noteq> 0 then None else Some response)"

subsection \<open>\<^verbatim>\<open>parse_teams\<close>, \<^verbatim>\<open>parse_moneyline\<close>, \<^verbatim>\<open>parse_spread\<close>\<close>

fun teams_loop :: "competitor list \<Rightarrow> string \<times> string \<Rightarrow> string \<times> string" where
  "teams_loop [] (home_team, away_team) = (home_team, away_team)"
| "teams_loop (team # rest) (home_team, away_team) =
     (if home team then teams_loop rest (name team, away_team)
      else teams_loop rest (home_team, name team))"

definition parse_teams :: "competitor list \<Rightarrow> py_exn + (string \<times> string)" where
  "parse_teams comps =
     (if length comps > 2 then Inl (Exception ''Unexpected objects in competitors'')
      else
        (let (home_team, away_team) = teams_loop comps ('''', '''')
         in if \<not> home_team = '''' \<or> away_team = ''''
            then Inr (upper home_team, upper away_team)
            else Inl (Exception ''Competitors was not properly parsed. Missing data.'')))"

fun moneyline_loop :: "outcome list \<Rightarrow> pyval \<times> pyval \<Rightarrow> py_exn + (pyval \<times> pyval)" where
  "moneyline_loop [] (home_moneyline, away_moneyline) = Inr (home_moneyline, away_moneyline)"
| "moneyline_loop (o1 # rest) (home_moneyline, away_moneyline) =
     (case (if american (outcome_price o1) = ''EVEN'' then Inr 100
            else py_int (american (outcome_price o1))) of
        Inl e \<Rightarrow> Inl e
      | Inr p \<Rightarrow>
          if outcome_type o1 = ''H'' then moneyline_loop rest (PInt p, away_moneyline)
          else if outcome_type o1 = ''A'' then moneyline_loop rest (home_moneyline, PInt p)
          else moneyline_loop rest (home_moneyline, away_moneyline))"

definition parse_moneyline :: "market \<Rightarrow> py_exn + (pyval \<times> pyval)" where
  "parse_moneyline moneyline_bet =
     (if length (outcomes moneyline_bet) > 2
      then Inl (Exception ''Unexpected objects in moneyline bet'')
      else
        (case moneyline_loop (outcomes moneyline_bet) (PStr '''', PStr '''') of
           Inl e \<Rightarrow> Inl e
         | Inr (home_moneyline, away_moneyline) \<Rightarrow>
             if \<not> home_moneyline = PStr '''' \<or> away_moneyline = PStr ''''
             then Inr (home_moneyline, away_moneyline)
             else Inl (Exception ''Moneyline was not properly parsed. Missing data.'')))"

fun spread_loop ::
  "env \<Rightarrow> outcome list \<Rightarrow> pyval \<times> pyval \<times> pyval \<Rightarrow> py_exn + (pyval \<times> pyval \<times> pyval)" where
  "spread_loop e [] (spread, home_spread_price, away_spread_price) =
     Inr (spread, home_spread_price, away_spread_price)"
| "spread_loop e (o1 # rest) (spread, home_spread_price, away_spread_price) =
     (if outcome_type o1 = ''H'' then
        (case handicap (outcome_price o1) of
           None \<Rightarrow> Inl KeyError
         | Some h \<Rightarrow>
             (case py_float e h of
                None \<Rightarrow> Inl ValueError
              | Some f \<Rightarrow>
                  (case py_int (american (outcome_price o1)) of
                     Inl x \<Rightarrow> Inl x
                   | Inr p \<Rightarrow> spread_loop e rest (PFloat f, PInt p, away_spread_price))))
      else if outcome_type o1 = ''A'' then
        (case py_int (american (outcome_price o1)) of
           Inl x \<Rightarrow> Inl x
         | Inr p \<Rightarrow> spread_loop e rest (spread, home_spread_price, PInt p))
      else spread_loop e rest (spread, home_spread_price, away_spread_price))"

definition parse_spread :: "env \<Rightarrow> market \<Rightarrow> py_exn + (pyval \<times> pyval \<times> pyval)" where
  "parse_spread e spread_bet =
     (if length (outcomes spread_bet) > 2
      then Inl (Exception ''Unexpected objects in spread bet'')
      else
        (case spread_loop e (outcomes spread_bet) (PStr '''', PStr '''', PStr '''') of
           Inl x \<Rightarrow> Inl x
         | Inr (spread, home_spread_price, away_spread_price) \<Rightarrow>
             if \<not> spread = PStr '''' \<or> home_spread_price = PStr ''''
                \<or> away_spread_price = PStr ''''
             then Inr (spread, home_spread_price, away_spread_price)
             else Inl (Exception ''Spread was not properly parsed. Missing data.'')))"

subsection \<open>\<^verbatim>\<open>odds_for_today\<close>\<close>

text \<open>
  The local variables of \<^verbatim>\<open>odds_for_today\<close> that are assigned inside the loop over the
  games and read after it.  They live for the whole call, so a value assigned while one
  game is processed is still there for the next; \<open>None\<close> is a variable not yet assigned,
  whose read raises \<^verbatim>\<open>UnboundLocalError\<close>.
\<close>

record locals =
  home_moneyline :: "pyval option"
  away_moneyline :: "pyval option"
  spread :: "pyval option"
  home_spread_price :: "pyval option"
  away_spread_price :: "pyval option"

definition unbound :: locals where
  "unbound = \<lparr>home_moneyline = None, away_moneyline = None, spread = None,
     home_spread_price = None, away_spread_price = None\<rparr>"

text \<open>\<^verbatim>\<open>if v == "": v = None\<close>\<close>

definition empty_to_none :: "pyval \<Rightarrow> pyval" where
  "empty_to_none v = (if v = PStr '''' then PNone else v)"

text \<open>
  The loop over \<^verbatim>\<open>full_match_bets\<close> (lines 78-93), on the flag \<^verbatim>\<open>money_lines\<close> and the
  local variables.
\<close>

fun bets_loop :: "env \<Rightarrow> market list \<Rightarrow> bool \<times> locals \<Rightarrow> py_exn + (bool \<times> locals)" where
  "bets_loop e [] (money_lines, vars) = Inr (money_lines, vars)"
| "bets_loop e (bet # rest) (money_lines, vars) =
     (if market_description bet = ''Moneyline'' then
        (case parse_moneyline bet of
           Inl x \<Rightarrow> Inl x
         | Inr (hm, am) \<Rightarrow>
             bets_loop e rest
               (True, vars\<lparr>home_moneyline := Some (empty_to_none hm),
                           away_moneyline := Some (empty_to_none am)\<rparr>))
      else if market_description bet = ''Point Spread'' then
        (case parse_spread e bet of
           Inl x \<Rightarrow> Inl x
         | Inr (s, hsp, asp) \<Rightarrow>
             bets_loop e rest
               (money_lines, vars\<lparr>spread := Some (empty_to_none s),
                                  home_spread_price := Some (empty_to_none hsp),
                                  away_spread_price := Some (empty_to_none asp)\<rparr>))
      else bets_loop e rest (money_lines, vars))"

text \<open>
  The result dictionary: column name to list of values, in insertion order (the code
  relies on it when it walks the keys).
\<close>

type_synonym lines = "(string \<times> pyval list) list"

definition empty_lines :: lines where
  "empty_lines =
     [(''home_team'', []), (''away_team'', []), (''start_time'', []), (''spread'', []),
      (''home_spread_price'', []), (''away_spread_price'', []), (''home_moneyline'', []),
      (''away_moneyline'', []), (''scrape_time'', [])]"

text \<open>
  Lines 102-105: \<^verbatim>\<open>for key in lines: lines[key].append(game_lines[i]); i += 1\<close>.  The
  dictionary has nine keys and \<^verbatim>\<open>game_lines\<close> nine entries, so the index stays in range.
\<close>

fun append_game_lines :: "lines \<Rightarrow> pyval list \<Rightarrow> nat \<Rightarrow> lines" where
  "append_game_lines [] game_lines i = []"
| "append_game_lines ((key, vals) # rest) game_lines i =
     (key, vals @ [game_lines ! i]) # append_game_lines rest game_lines (Suc i)"

text \<open>The digits of the part of the link after its last hyphen (lines 60-63).\<close>

definition link_digits :: "string \<Rightarrow> string" where
  "link_digits l = filter is_digit (rev (takeWhile (\<lambda>c. c \<noteq> CHR ''-'') (rev l)))"

text \<open>
  Lines 98-99: building \<^verbatim>\<open>game_lines\<close> reads the five variables; the first one that was
  never assigned raises.
\<close>

definition game_lines_of ::
  "string \<Rightarrow> string \<Rightarrow> int \<Rightarrow> locals \<Rightarrow> int \<Rightarrow> py_exn + pyval list" where
  "game_lines_of home_team away_team start_time vars scrape_time =
     (case (spread vars, home_spread_price vars, away_spread_price vars,
            home_moneyline vars, away_moneyline vars) of
        (Some s, Some hsp, Some asp, Some hm, Some am) \<Rightarrow>
          Inr [PStr home_team, PStr away_team, PDatetime start_time, s, hsp, asp, hm, am,
               PDatetime scrape_time]
      | _ \<Rightarrow> Inl UnboundLocalError)"

text \<open>
  The loop over \<^verbatim>\<open>bovada_games\<close> (lines 59-105).  \<open>n\<close> counts the calls of
  \<^verbatim>\<open>datetime.now()\<close> made so far; every game that gets past \<^verbatim>\<open>strptime\<close> makes one.
\<close>

fun games_loop ::
  "env \<Rightarrow> int \<Rightarrow> event list \<Rightarrow> nat \<Rightarrow> locals \<Rightarrow> lines \<Rightarrow> py_exn + lines" where
  "games_loop e scrape_time [] n vars lns = Inr lns"
| "games_loop e scrape_time (game # rest) n vars lns =
     (case strptime e (link_digits (link game)) of
        None \<Rightarrow> Inl ValueError
      | Some start_time \<Rightarrow>
          if now e n > start_time then games_loop e scrape_time rest (Suc n) vars lns
          else
            (case parse_teams (competitors game) of
               Inl x \<Rightarrow> Inl x
             | Inr (home_team, away_team) \<Rightarrow>
                 (case displayGroups game of
                    [] \<Rightarrow> Inl IndexError
                  | g # _ \<Rightarrow>
                      (let betting_info = markets g;
                           full_match_bets =
                             filter (\<lambda>bet. period_description bet = ''Match'') betting_info
                       in case bets_loop e full_match_bets (False, vars) of
                            Inl x \<Rightarrow> Inl x
                          | Inr (money_lines, vars1) \<Rightarrow>
                              (let vars2 =
                                     (if \<not> money_lines
                                      then vars1\<lparr>home_moneyline := Some PNone,
                                                  away_moneyline := Some PNone\<rparr>
                                      else vars1)
                               in case game_lines_of home_team away_team start_time vars2
                                         scrape_time of
                                    Inl x \<Rightarrow> Inl x
                                  | Inr game_lines \<Rightarrow>
                                      games_loop e scrape_time rest (Suc n) vars2
                                        (append_game_lines lns game_lines 0))))))"

text \<open>
  \<^verbatim>\<open>odds_for_today\<close>.  The first component of the result is the list of URLs requested,
  in order; the second is the exception raised or the value returned (\<open>None\<close> for
  \<^verbatim>\<open>None\<close>).  \<^verbatim>\<open>not response\<close> holds of \<^verbatim>\<open>None\<close> and of the empty list.
\<close>

definition is_game :: "event \<Rightarrow> bool" where
  "is_game ev \<longleftrightarrow> count_list (description ev) (CHR ''@'') > 0 \<and> event_type ev = ''GAMEEVENT''"

definition falsy :: "feed list option \<Rightarrow> bool" where
  "falsy response \<longleftrightarrow> (case response of None \<Rightarrow> True | Some r \<Rightarrow> r = [])"

definition odds_for_today :: "env \<Rightarrow> url list \<times> (py_exn + lines option)" where
  "odds_for_today e =
     (let scrape_time = now e 0;
          first = bovada_json_request e RegularURL;
          (requested, response) =
            (if falsy first then ([RegularURL, PlayoffURL], bovada_json_request e PlayoffURL)
             else ([RegularURL], first))
      in if falsy response then (requested, Inr None)
         else
           (case response of
              None \<Rightarrow> (requested, Inl TypeError)
            | Some [] \<Rightarrow> (requested, Inl IndexError)
            | Some (doc # _) \<Rightarrow>
                (let bovada_games = filter is_game (events doc)
                 in if bovada_games = [] then (requested, Inr None)
                    else
                      (case games_loop e scrape_time bovada_games 1 unbound empty_lines of
                         Inl x \<Rightarrow> (requested, Inl x)
                       | Inr lns \<Rightarrow> (requested, Inr (Some lns))))))"

text \<open>
  \<^verbatim>\<open>scrape\<close> (lines 242-246; the statements after the second \<^verbatim>\<open>return\<close> are never
  reached).  \<^verbatim>\<open>not lines\<close> holds of \<^verbatim>\<open>None\<close> and of a dictionary without keys.
\<close>

datatype scrape_result = ScrapeFalse | ScrapeLines lines

definition scrape :: "env \<Rightarrow> url list \<times> (py_exn + scrape_result)" where
  "scrape e =
     (case odds_for_today e of
        (requested, Inl x) \<Rightarrow> (requested, Inl x)
      | (requested, Inr None) \<Rightarrow> (requested, Inr ScrapeFalse)
      | (requested, Inr (Some lns)) \<Rightarrow>
          if lns = [] then (requested, Inr ScrapeFalse)
          else (requested, Inr (ScrapeLines lns)))"

text \<open>The nine column names, and the number of games the loop emits a record for.\<close>

definition column_names :: "string list" where
  "column_names =
     [''home_team'', ''away_team'', ''start_time'', ''spread'', ''home_spread_price'',
      ''away_spread_price'', ''home_moneyline'', ''away_moneyline'', ''scrape_time'']"

fun emitted_games :: "env \<Rightarrow> event list \<Rightarrow> nat \<Rightarrow> nat" where
  "emitted_games e [] n = 0"
| "emitted_games e (game # rest) n =
     (case strptime e (link_digits (link game)) of
        None \<Rightarrow> 0
      | Some start_time \<Rightarrow>
          (if now e n > start_time then 0 else 1) + emitted_games e rest (Suc n))"

text \<open>
  The games the loop of \<^verbatim>\<open>odds_for_today\<close> runs over (lines 38-50): the game events of the
  first document of the payload in use, the regular one unless it is empty.
\<close>

definition scraped_games :: "env \<Rightarrow> event list" where
  "scraped_games e =
     (let first = bovada_json_request e RegularURL;
          response = (if falsy first then bovada_json_request e PlayoffURL else first)
      in case response of
           Some (doc # _) \<Rightarrow> filter is_game (events doc)
         | _ \<Rightarrow> [])"

subsection \<open>Sample feeds\<close>

text \<open>
  Feed fragments used to run the parser: a moneyline market and a point-spread market
  with one outcome per side, a game event for a home and an away team whose link ends
  in a time stamp, and an environment that serves a regular and a playoff payload, reads
  the clock as 0 and knows two time stamps and one handicap.
\<close>

definition moneyline_market :: "string \<Rightarrow> string \<Rightarrow> market" where
  "moneyline_market h a =
     \<lparr>market_description = ''Moneyline'', period_description = ''Match'',
      outcomes = [\<lparr>outcome_type = ''H'', outcome_price = \<lparr>american = h, handicap = None\<rparr>\<rparr>,
                  \<lparr>outcome_type = ''A'', outcome_price = \<lparr>american = a, handicap = None\<rparr>\<rparr>]\<rparr>"

definition spread_market :: "string \<Rightarrow> string \<Rightarrow> string \<Rightarrow> market" where
  "spread_market hc h a =
     \<lparr>market_description = ''Point Spread'', period_description = ''Match'',
      outcomes = [\<lparr>outcome_type = ''H'', outcome_price = \<lparr>american = h, handicap = Some hc\<rparr>\<rparr>,
                  \<lparr>outcome_type = ''A'', outcome_price = \<lparr>american = a, handicap = None\<rparr>\<rparr>]\<rparr>"

definition game_event :: "string \<Rightarrow> string \<Rightarrow> string \<Rightarrow> market list \<Rightarrow> event" where
  "game_event h a stamp ms =
     \<lparr>description = a @ '' @ '' @ h, event_type = ''GAMEEVENT'',
      link = ''/basketball/nba/'' @ a @ ''-'' @ h @ ''-'' @ stamp,
      competitors = [\<lparr>name = h, home = True\<rparr>, \<lparr>name = a, home = False\<rparr>],
      displayGroups = [\<lparr>markets = ms\<rparr>]\<rparr>"

definition sample_env :: "feed list \<Rightarrow> feed list \<Rightarrow> env" where
  "sample_env regular playoff =
     \<lparr>get_json = (\<lambda>u. case u of RegularURL \<Rightarrow> regular | PlayoffURL \<Rightarrow> playoff),
      now = (\<lambda>n. 0),
      strptime = (\<lambda>s. if s = ''202503261930'' then Some 1170
                        else if s = ''202503262000'' then Some 1200 else None),
      py_float = (\<lambda>s. if s = ''-4.5'' then Some (- 4.5) else None)\<rparr>"

section \<open>The odds table: \<^verbatim>\<open>update_odds_table\<close>\<close>

text \<open>
  A row of the odds table: the three columns of the game identity, the remaining odds
  columns (spread, prices, moneylines, scrape time), which \<^verbatim>\<open>update_odds_table\<close> only
  copies, and the foreign key to the schedule.  A row of the schedule table: its id and
  the game identity.
\<close>

record odds_row =
  home_team :: string
  away_team :: string
  start_time :: int
  odds :: "pyval list"
  game_id :: "nat option"

record sched_row =
  sched_id :: nat
  sched_home_team :: string
  sched_away_team :: string
  sched_start_time :: int

text \<open>The filter of the query for existing rows (lines 210-212).\<close>

definition same_game :: "odds_row \<Rightarrow> odds_row \<Rightarrow> bool" where
  "same_game row r \<longleftrightarrow>
     home_team r = home_team row \<and> away_team r = away_team row \<and> start_time r = start_time row"

text \<open>The filter of the query for the scheduled game (lines 221-223).\<close>

definition scheduled :: "odds_row \<Rightarrow> sched_row \<Rightarrow> bool" where
  "scheduled row_object g \<longleftrightarrow>
     sched_home_team g = home_team row_object \<and> sched_away_team g = away_team row_object
     \<and> sched_start_time g = start_time row_object"

text \<open>
  The loop over \<^verbatim>\<open>rows\<close> (lines 208-229), on the odds table as the session's queries see
  it and on \<^verbatim>\<open>row_objects\<close>.  \<^verbatim>\<open>session.delete\<close> takes a row out of the table for the
  queries that follow; \<^verbatim>\<open>game[0]\<close> on an empty result raises \<^verbatim>\<open>IndexError\<close>.
\<close>

fun odds_loop ::
  "sched_row list \<Rightarrow> odds_row list \<Rightarrow> odds_row list \<Rightarrow> odds_row list \<Rightarrow>
   py_exn + (odds_row list \<times> odds_row list)" where
  "odds_loop sched_tbl [] odds_tbl row_objects = Inr (odds_tbl, row_objects)"
| "odds_loop sched_tbl (row # rest) odds_tbl row_objects =
     (let existing_rows = filter (same_game row) odds_tbl;
          odds_tbl1 =
            (if length existing_rows > 0 then fold removeAll existing_rows odds_tbl
             else odds_tbl);
          row_object = row;
          game = filter (scheduled row_object) sched_tbl
      in if length game > 1 then Inl (Exception ''More than one game matches the row'')
         else
           (case game of
              [] \<Rightarrow> Inl IndexError
            | g # _ \<Rightarrow>
                odds_loop sched_tbl rest odds_tbl1
                  (row_objects @ [row_object\<lparr>game_id := Some (sched_id g)\<rparr>])))"

text \<open>
  \<^verbatim>\<open>update_odds_table\<close>: nothing is touched when there are no rows; otherwise the loop
  runs and \<^verbatim>\<open>session.add_all\<close> puts the new objects into the table.  (\<^verbatim>\<open>add_all\<close> only
  registers the objects with the session, so the \<^verbatim>\<open>IntegrityError\<close> handler around it,
  which would add them one by one, has nothing to catch.)
\<close>

definition update_odds_table ::
  "odds_row list \<Rightarrow> sched_row list \<Rightarrow> odds_row list \<Rightarrow> py_exn + odds_row list" where
  "update_odds_table odds_tbl sched_tbl rows =
     (if length rows = 0 then Inr odds_tbl
      else
        (case odds_loop sched_tbl rows odds_tbl [] of
           Inl x \<Rightarrow> Inl x
         | Inr (odds_tbl1, row_objects) \<Rightarrow> Inr (odds_tbl1 @ row_objects)))"

text \<open>The new object for a row: the row with the id of its scheduled game.\<close>

definition with_game_id :: "sched_row list \<Rightarrow> odds_row \<Rightarrow> odds_row" where
  "with_game_id sched_tbl row =
     row\<lparr>game_id :=
       (case filter (scheduled row) sched_tbl of [] \<Rightarrow> None | g # _ \<Rightarrow> Some (sched_id g))\<rparr>"

section \<open>Persisting predictions: \<^verbatim>\<open>predict_games_on_date\<close>\<close>

text \<open>
  The names bound at module level in \<^verbatim>\<open>predict/bets.py\<close>: its imports and its functions
  (and \<^verbatim>\<open>db\<close> and \<^verbatim>\<open>date\<close> when the module is run as a script).  Reading any other global
  name raises \<^verbatim>\<open>NameError\<close>.
\<close>

definition bets_globals :: "string list" where
  "bets_globals =
     [''datetime'', ''np'', ''pd'', ''stats'', ''Session'', ''or_'', ''IntegrityError'',
      ''Config'', ''br_references'', ''Database'', ''DataOperator'', ''getters'',
      ''conversion'', ''predictions'', ''ff_reg'',
      ''get_prediction'', ''get_team_name'', ''get_team_ff'', ''line_probability'',
      ''prediction_result_console_output'', ''insert_predictions'',
      ''insert_new_predictions'', ''update_prediction_table'', ''update_bet_results'',
      ''get_sample_prediction'', ''predict_game'', ''predict_games_in_odds'',
      ''predict_games_on_day'', ''predict_games_on_date'', ''predict_all'',
      ''db'', ''date'']"

definition read_global :: "string \<Rightarrow> py_exn + unit" where
  "read_global nm = (if nm \<in> set bets_globals then Inr () else Inl NameError)"

text \<open>
  A call with positional arguments only of a function that has \<open>params\<close> parameters, none
  with a default: any other number of arguments raises \<^verbatim>\<open>TypeError\<close> before the body
  runs.  A keyword argument that names no parameter does the same.
\<close>

definition call_positional :: "nat \<Rightarrow> nat \<Rightarrow> py_exn + unit" where
  "call_positional params args = (if args = params then Inr () else Inl TypeError)"

definition call_keywords :: "string list \<Rightarrow> string list \<Rightarrow> py_exn + unit" where
  "call_keywords params keywords =
     (if list_all (\<lambda>k. k \<in> set params) keywords then Inr () else Inl TypeError)"

text \<open>
  \<^verbatim>\<open>predict_games_on_day\<close> (lines 309-325).  The argument list of its first call reads the
  global \<^verbatim>\<open>year\<close>.  \<open>regression\<close> is what \<^verbatim>\<open>ff_reg.main\<close> (outside the repository's files)
  does: raise, or return a model.  Each game is then predicted by a call of
  \<^verbatim>\<open>predict_game(session, regression, x_df, console_out=False)\<close> with the keywords
  \<^verbatim>\<open>database, session, regression, home_tm, away_tm, start_time, line, console_out\<close>; the
  handler around the loop catches \<^verbatim>\<open>AttributeError\<close> only.
\<close>

definition predict_games_on_day :: "(py_exn + unit) \<Rightarrow> odds_row list \<Rightarrow> py_exn + real list" where
  "predict_games_on_day regression games =
     (case read_global ''year'' of
        Inl x \<Rightarrow> Inl x
      | Inr _ \<Rightarrow>
          (case regression of
             Inl x \<Rightarrow> Inl x
           | Inr _ \<Rightarrow>
               if games = [] then Inr []
               else
                 (case call_keywords [''session'', ''regression'', ''x_df'', ''console_out'']
                         [''database'', ''session'', ''regression'', ''home_tm'', ''away_tm'',
                          ''start_time'', ''line'', ''console_out''] of
                    Inl x \<Rightarrow> Inl x
                  | Inr _ \<Rightarrow> Inr [])))"

text \<open>What is done to the session, in order.\<close>

datatype session_op = AddAll | Commit | Rollback | UpdatePredictionTable | Close

text \<open>
  The \<^verbatim>\<open>try\<close> statement of \<^verbatim>\<open>predict_games_on_date\<close> (lines 355-363), returning the
  exception that leaves it (if any) and the session's log.  Its body calls
  \<^verbatim>\<open>insert_predictions\<close>, defined with the four parameters
  \<^verbatim>\<open>rows, session, pred_tbl, sched_tbl\<close>, with five positional arguments, then commits;
  \<open>commit\<close> is what that commit does (\<open>Some x\<close>: it raises \<open>x\<close>).  The handler catches
  \<^verbatim>\<open>IntegrityError\<close> only; \<^verbatim>\<open>finally\<close> closes the session on every path.
\<close>

definition persist_predictions :: "py_exn option \<Rightarrow> (py_exn + unit) \<times> session_op list" where
  "persist_predictions commit =
     (let (body, log) =
            (case call_positional 4 5 of
               Inl x \<Rightarrow> (Inl x, [])
             | Inr _ \<Rightarrow>
                 (case commit of
                    None \<Rightarrow> (Inr (), [AddAll, Commit])
                  | Some x \<Rightarrow> (Inl x, [AddAll, Commit])));
          (handled, log1) =
            (if body = Inl IntegrityError
             then (Inr (), log @ [Rollback, UpdatePredictionTable, Commit])
             else (body, log))
      in (handled, log1 @ [Close]))"

text \<open>
  \<^verbatim>\<open>predict_games_on_date\<close>, for a date that is a datetime or a well-formed
  dictionary.  \<open>spreads\<close> is what the lookup of the odds table and
  \<^verbatim>\<open>getters.get_spreads_for_date\<close> (both outside the repository's files) do: raise, or
  return the day's games.  Between the predictions and the \<^verbatim>\<open>try\<close> statement only the
  tables are looked up.
\<close>

definition predict_games_on_date ::
  "(py_exn + odds_row list) \<Rightarrow> (py_exn + unit) \<Rightarrow> py_exn option \<Rightarrow>
   (py_exn + unit) \<times> session_op list" where
  "predict_games_on_date spreads regression commit =
     (case spreads of
        Inl x \<Rightarrow> (Inl x, [])
      | Inr game_spreads \<Rightarrow>
          (case predict_games_on_day regression game_spreads of
             Inl x \<Rightarrow> (Inl x, [])
           | Inr results \<Rightarrow> persist_predictions commit))"

section \<open>Settlement: results\<close>

lemma settle_row_numeric:
  assumes "numeric_row row"
  shows "settle_row row = Inr (spec_settle row)"
proof -
  from assms obtain h a l p where
    f: "home_team_score row = Some h" "away_team_score row = Some a"
       "line row = Some l" "prediction row = Some p"
    by (auto simp: numeric_row_def)
  show ?thesis
    by (simp add: settle_row_def spec_settle_def spec_bet_result_def f Let_def)
qed

text \<open>
  C1.  On records whose two scores, line and prediction are all numbers,
  \<^verbatim>\<open>update_bet_results\<close> returns normally and assigns every record the result the
  specification's rule gives for score margin \<open>home - away\<close>, inverted line \<open>- line\<close> and
  the prediction: PUSH when the margin equals the inverted line, whatever the
  prediction; WIN when margin and prediction lie strictly on the same side of it; LOSS
  otherwise.  No other column changes.
\<close>

theorem update_bet_results_grades:
  assumes "\<forall>row \<in> set rows. numeric_row row"
  shows "update_bet_results rows = Inr (map spec_settle rows)"
  using assms by (induction rows) (simp_all add: settle_row_numeric)

theorem update_bet_results_grades_witness:
  "update_bet_results
     [\<lparr>home_team_score = Some 100, away_team_score = Some 95, line = Some (- 4.5),
       prediction = Some 6, bet_result = None\<rparr>,
      \<lparr>home_team_score = Some 100, away_team_score = Some 95, line = Some (- 5),
       prediction = Some (- 3), bet_result = None\<rparr>,
      \<lparr>home_team_score = Some 90, away_team_score = Some 95, line = Some (- 4.5),
       prediction = Some 6, bet_result = None\<rparr>]
   = Inr
     [\<lparr>home_team_score = Some 100, away_team_score = Some 95, line = Some (- 4.5),
       prediction = Some 6, bet_result = Some ''WIN''\<rparr>,
      \<lparr>home_team_score = Some 100, away_team_score = Some 95, line = Some (- 5),
       prediction = Some (- 3), bet_result = Some ''PUSH''\<rparr>,
      \<lparr>home_team_score = Some 90, away_team_score = Some 95, line = Some (- 4.5),
       prediction = Some 6, bet_result = Some ''LOSS''\<rparr>]"
proof -
  let ?rows =
    "[\<lparr>home_team_score = Some 100, away_team_score = Some 95, line = Some (- 4.5),
       prediction = Some 6, bet_result = None\<rparr>,
      \<lparr>home_team_score = Some 100, away_team_score = Some 95, line = Some (- 5),
       prediction = Some (- 3), bet_result = None\<rparr>,
      \<lparr>home_team_score = Some 90, away_team_score = Some 95, line = Some (- 4.5),
       prediction = Some 6, bet_result = (None :: string option)\<rparr>]"
  have "\<forall>row \<in> set ?rows. numeric_row row"
    by (simp add: numeric_row_def)
  from update_bet_results_grades [OF this] show ?thesis
    by (simp add: spec_settle_def spec_bet_result_def)
qed

text \<open>
  C2.  The settlement pass selects the records to grade by \<open>bet_result IS NULL\<close> and
  \<open>home_team_score > 0\<close> only; the away score is not looked at.  A record whose away
  score is still the placeholder zero is graded (here WIN, on a margin of 100), and one
  whose away score is still null makes the pass raise \<^verbatim>\<open>TypeError\<close>.
\<close>

theorem update_prediction_table_ignores_away_score:
  "update_prediction_table
     [\<lparr>home_team_score = Some 100, away_team_score = Some 0, line = Some (- 4.5),
       prediction = Some 6, bet_result = None\<rparr>]
   = Inr
     [\<lparr>home_team_score = Some 100, away_team_score = Some 0, line = Some (- 4.5),
       prediction = Some 6, bet_result = Some ''WIN''\<rparr>]
   \<and> update_prediction_table
     [\<lparr>home_team_score = Some 100, away_team_score = None, line = Some (- 4.5),
       prediction = Some 6, bet_result = None\<rparr>]
   = Inl TypeError"
  by (simp add: update_prediction_table_def bet_update_filter_def score_update_filter_def
      settle_row_def)

lemma write_back_length: "length (write_back tbl graded) = length tbl"
  by (induction tbl graded rule: write_back.induct) (simp_all split: list.splits)

lemma write_back_keeps:
  "i < length tbl \<Longrightarrow> \<not> bet_update_filter (tbl ! i) \<Longrightarrow> write_back tbl graded ! i = tbl ! i"
proof (induction tbl graded arbitrary: i rule: write_back.induct)
  case (1 graded)
  then show ?case by simp
next
  case (2 row tbl graded)
  show ?case
  proof (cases i)
    case 0
    with "2.prems" show ?thesis by simp
  next
    case (Suc j)
    with "2.prems" have j: "j < length tbl" "\<not> bet_update_filter (tbl ! j)" by simp_all
    with "2.IH" Suc show ?thesis
      by (simp split: list.splits)
  qed
qed

text \<open>
  What the settlement pass leaves alone: the table keeps its length, and a record whose
  \<open>bet_result\<close> is already set, or whose home score is null or not positive, is the
  same record afterwards.
\<close>

theorem update_prediction_table_frame:
  assumes "update_prediction_table pred_tbl = Inr pred_tbl'"
  shows "length pred_tbl' = length pred_tbl
         \<and> (\<forall>i < length pred_tbl.
               bet_result (pred_tbl ! i) \<noteq> None \<or> home_team_score (pred_tbl ! i) = None
               \<or> the (home_team_score (pred_tbl ! i)) \<le> 0
               \<longrightarrow> pred_tbl' ! i = pred_tbl ! i)"
proof -
  from assms obtain graded where g: "pred_tbl' = write_back pred_tbl graded"
    by (auto simp: update_prediction_table_def Let_def split: sum.splits)
  have "\<not> bet_update_filter r"
    if "bet_result r \<noteq> None \<or> home_team_score r = None \<or> the (home_team_score r) \<le> 0" for r
    using that by (auto simp: bet_update_filter_def split: option.splits)
  with g show ?thesis
    by (simp add: write_back_length write_back_keeps)
qed

theorem update_prediction_table_frame_witness:
  "update_prediction_table
     [\<lparr>home_team_score = Some 90, away_team_score = Some 95, line = Some 2,
       prediction = Some 1, bet_result = Some ''LOSS''\<rparr>,
      \<lparr>home_team_score = Some 100, away_team_score = Some 95, line = Some (- 4.5),
       prediction = Some 6, bet_result = None\<rparr>,
      \<lparr>home_team_score = None, away_team_score = None, line = Some 3,
       prediction = Some 1, bet_result = None\<rparr>]
   = Inr
     [\<lparr>home_team_score = Some 90, away_team_score = Some 95, line = Some 2,
       prediction = Some 1, bet_result = Some ''LOSS''\<rparr>,
      \<lparr>home_team_score = Some 100, away_team_score = Some 95, line = Some (- 4.5),
       prediction = Some 6, bet_result = Some ''WIN''\<rparr>,
      \<lparr>home_team_score = None, away_team_score = None, line = Some 3,
       prediction = Some 1, bet_result = None\<rparr>]
   \<and> length
     [\<lparr>home_team_score = Some 90, away_team_score = Some 95, line = Some 2,
       prediction = Some 1, bet_result = Some ''LOSS''\<rparr>,
      \<lparr>home_team_score = Some 100, away_team_score = Some 95, line = Some (- 4.5),
       prediction = Some 6, bet_result = Some ''WIN''\<rparr>,
      \<lparr>home_team_score = None, away_team_score = None, line = Some 3,
       prediction = Some (1 :: real), bet_result = None\<rparr>] = 3"
proof -
  have run: "update_prediction_table
     [\<lparr>home_team_score = Some 90, away_team_score = Some 95, line = Some 2,
       prediction = Some 1, bet_result = Some ''LOSS''\<rparr>,
      \<lparr>home_team_score = Some 100, away_team_score = Some 95, line = Some (- 4.5),
       prediction = Some 6, bet_result = None\<rparr>,
      \<lparr>home_team_score = None, away_team_score = None, line = Some 3,
       prediction = Some 1, bet_result = None\<rparr>]
   = Inr
     [\<lparr>home_team_score = Some 90, away_team_score = Some 95, line = Some 2,
       prediction = Some 1, bet_result = Some ''LOSS''\<rparr>,
      \<lparr>home_team_score = Some 100, away_team_score = Some 95, line = Some (- 4.5),
       prediction = Some 6, bet_result = Some ''WIN''\<rparr>,
      \<lparr>home_team_score = None, away_team_score = None, line = Some 3,
       prediction = Some 1, bet_result = None\<rparr>]"
    by (simp add: update_prediction_table_def bet_update_filter_def score_update_filter_def
        settle_row_def)
  from update_prediction_table_frame [OF run] run show ?thesis by simp
qed

lemma settle_row_graded: "settle_row row = Inr g \<Longrightarrow> \<not> bet_update_filter g"
  by (auto simp: settle_row_def bet_update_filter_def Let_def
      split: option.splits if_splits)

lemma update_bet_results_graded:
  "update_bet_results rows = Inr graded \<Longrightarrow>
   length graded = length rows \<and> (\<forall>g \<in> set graded. \<not> bet_update_filter g)"
proof (induction rows arbitrary: graded)
  case Nil
  then show ?case by simp
next
  case (Cons row rows)
  from Cons.prems obtain g rest where
    p: "settle_row row = Inr g" "update_bet_results rows = Inr rest" "graded = g # rest"
    by (auto split: sum.splits)
  from Cons.IH [OF p(2)] settle_row_graded [OF p(1)] p(3) show ?case by simp
qed

lemma write_back_all_graded:
  "length graded = length (filter bet_update_filter tbl) \<Longrightarrow>
   \<forall>g \<in> set graded. \<not> bet_update_filter g \<Longrightarrow>
   filter bet_update_filter (write_back tbl graded) = []"
proof (induction tbl graded rule: write_back.induct)
  case (1 graded)
  then show ?case by simp
next
  case (2 row tbl graded)
  then show ?case
    by (cases graded) (auto split: if_splits)
qed

lemma write_back_nothing: "write_back tbl [] = tbl"
  by (induction tbl) simp_all

text \<open>
  Grading happens once: after a pass that returned normally every selected record has
  its \<open>bet_result\<close>, so a second pass selects nothing and changes nothing.
\<close>

theorem update_prediction_table_once:
  assumes "update_prediction_table pred_tbl = Inr pred_tbl'"
  shows "update_prediction_table pred_tbl' = Inr pred_tbl'"
proof -
  from assms obtain graded where
    u: "update_bet_results (filter bet_update_filter pred_tbl) = Inr graded"
    and g: "pred_tbl' = write_back pred_tbl graded"
    by (auto simp: update_prediction_table_def Let_def split: sum.splits)
  from update_bet_results_graded [OF u]
  have "filter bet_update_filter pred_tbl' = []"
    unfolding g by (intro write_back_all_graded) simp_all
  then show ?thesis
    by (simp add: update_prediction_table_def Let_def write_back_nothing)
qed

theorem update_prediction_table_once_witness:
  "update_prediction_table
     [\<lparr>home_team_score = Some 100, away_team_score = Some 95, line = Some (- 4.5),
       prediction = Some 6, bet_result = Some ''WIN''\<rparr>]
   = Inr
     [\<lparr>home_team_score = Some 100, away_team_score = Some 95, line = Some (- 4.5),
       prediction = Some 6, bet_result = Some ''WIN''\<rparr>]"
proof -
  have run: "update_prediction_table
     [\<lparr>home_team_score = Some 100, away_team_score = Some 95, line = Some (- 4.5),
       prediction = Some 6, bet_result = None\<rparr>]
   = Inr
     [\<lparr>home_team_score = Some 100, away_team_score = Some 95, line = Some (- 4.5),
       prediction = Some 6, bet_result = Some ''WIN''\<rparr>]"
    by (simp add: update_prediction_table_def bet_update_filter_def score_update_filter_def
        settle_row_def)
  from update_prediction_table_once [OF run] show ?thesis .
qed

section \<open>Outcome probability: results\<close>

text \<open>
  C3.  With \<open>line_prediction = - line\<close>, \<^verbatim>\<open>line_probability\<close> returns the pair of the
  normal distribution's CDF at \<open>line_prediction\<close> (mean \<open>prediction\<close>, scale \<open>std\<close>) and the
  tag \<open>cdf\<close> when the prediction is above \<open>line_prediction\<close>, the pair of its SF and the
  tag \<open>sf\<close> when the prediction is below, and the bare number 0.5 when they are equal.
  This holds for every \<open>std\<close>, so for every positive one.
\<close>

theorem line_probability_cases:
  "(pred > - line_arg \<longrightarrow>
      line_probability norm_cdf norm_sf pred line_arg std
        = Tagged (norm_cdf pred std (- line_arg)) ''cdf'')
   \<and> (pred < - line_arg \<longrightarrow>
      line_probability norm_cdf norm_sf pred line_arg std
        = Tagged (norm_sf pred std (- line_arg)) ''sf'')
   \<and> (pred = - line_arg \<longrightarrow>
      line_probability norm_cdf norm_sf pred line_arg std = Untagged (1 / 2))"
  by (simp add: line_probability_def)

theorem line_probability_cases_witness:
  "line_probability (\<lambda>loc scale x. (x - loc) / scale) (\<lambda>loc scale x. (loc - x) / scale) 3 (- 4.5) 2
     = Tagged (- 3 / 4) ''sf''
   \<and> line_probability (\<lambda>loc scale x. (x - loc) / scale) (\<lambda>loc scale x. (loc - x) / scale) 6 (- 4.5) 2
     = Tagged (- 3 / 4) ''cdf''
   \<and> line_probability (\<lambda>loc scale x. (x - loc) / scale) (\<lambda>loc scale x. (loc - x) / scale) 4.5 (- 4.5) 2
     = Untagged (1 / 2)"
  using
    line_probability_cases [where pred = 3 and line_arg = "- 4.5" and std = 2
      and norm_cdf = "\<lambda>loc scale x. (x - loc) / scale"
      and norm_sf = "\<lambda>loc scale x. (loc - x) / scale"]
    line_probability_cases [where pred = 6 and line_arg = "- 4.5" and std = 2
      and norm_cdf = "\<lambda>loc scale x. (x - loc) / scale"
      and norm_sf = "\<lambda>loc scale x. (loc - x) / scale"]
    line_probability_cases [where pred = "4.5" and line_arg = "- 4.5" and std = 2
      and norm_cdf = "\<lambda>loc scale x. (x - loc) / scale"
      and norm_sf = "\<lambda>loc scale x. (loc - x) / scale"]
  by simp

section \<open>Odds parser: results\<close>

subsection \<open>The shape of the result\<close>

lemma append_game_lines_keys: "map fst (append_game_lines lns gl i) = map fst lns"
  by (induction lns gl i rule: append_game_lines.induct) simp_all

lemma append_game_lines_lengths:
  "list_all (\<lambda>vals. length vals = k) (map snd lns) \<Longrightarrow>
   list_all (\<lambda>vals. length vals = Suc k) (map snd (append_game_lines lns gl i))"
  by (induction lns gl i rule: append_game_lines.induct) simp_all

lemma games_loop_shape:
  "games_loop e st games n vars lns = Inr out \<Longrightarrow>
   list_all (\<lambda>vals. length vals = k) (map snd lns) \<Longrightarrow>
   map fst out = map fst lns \<and>
   list_all (\<lambda>vals. length vals = k + emitted_games e games n) (map snd out)"
proof (induction games arbitrary: n vars lns k)
  case Nil
  then show ?case by simp
next
  case (Cons game rest)
  from Cons.prems(1) obtain start_time where
    st: "strptime e (link_digits (link game)) = Some start_time"
    by (auto split: option.splits)
  show ?case
  proof (cases "now e n > start_time")
    case True
    with Cons.prems st have "games_loop e st rest (Suc n) vars lns = Inr out" by simp
    from Cons.IH [OF this Cons.prems(2)] True st show ?thesis by simp
  next
    case False
    with Cons.prems(1) st obtain vars2 game_lines where
      rec: "games_loop e st rest (Suc n) vars2 (append_game_lines lns game_lines 0) = Inr out"
      by (auto simp: Let_def split: sum.splits list.splits prod.splits if_splits)
    have "list_all (\<lambda>vals. length vals = Suc k)
            (map snd (append_game_lines lns game_lines 0))"
      using Cons.prems(2) by (rule append_game_lines_lengths)
    from Cons.IH [OF rec this] False st show ?thesis
      by (simp add: append_game_lines_keys)
  qed
qed

lemma odds_for_today_run:
  assumes "odds_for_today e = (requested, Inr (Some lns))"
  shows "games_loop e (now e 0) (scraped_games e) 1 unbound empty_lines = Inr lns"
  using assms
  by (auto simp: odds_for_today_def scraped_games_def Let_def
      split: if_splits option.splits list.splits sum.splits prod.splits)

text \<open>
  C10.  A dictionary returned by \<^verbatim>\<open>odds_for_today\<close> has exactly the nine column names as
  its keys, in the order of the table, and each of its nine value lists has as many
  entries as games were emitted: every game of the feed that is not skipped as already
  started appended exactly one value to each list, and nothing else did.
\<close>

theorem odds_for_today_shape:
  assumes "odds_for_today e = (requested, Inr (Some lns))"
  shows "map fst lns = column_names \<and> length lns = 9
         \<and> list_all (\<lambda>vals. length vals = emitted_games e (scraped_games e) 1)
             (map snd lns)"
proof -
  note run = odds_for_today_run [OF assms]
  have "list_all (\<lambda>vals. length vals = 0) (map snd empty_lines)"
    by (simp add: empty_lines_def)
  from games_loop_shape [OF run this]
  have keys: "map fst lns = map fst empty_lines"
    and lens: "list_all (\<lambda>vals. length vals = emitted_games e (scraped_games e) 1)
                 (map snd lns)"
    by simp_all
  from keys have k: "map fst lns = column_names"
    by (simp add: empty_lines_def column_names_def)
  have "length (map fst lns) = 9"
    unfolding k by (simp add: column_names_def)
  then have "length lns = 9" by simp
  with k lens show ?thesis by simp
qed

text \<open>
  A run on two games with the clock at 1180: the first game started at 1170 and is
  skipped, the second starts at 1200 and is emitted, so every list has one entry.
\<close>

theorem odds_for_today_shape_witness:
  "odds_for_today
     ((sample_env
        [\<lparr>events = [game_event ''Lakers'' ''Celtics'' ''202503261930''
            [spread_market ''-4.5'' ''-110'' ''-110'', moneyline_market ''-200'' ''+180''],
          game_event ''Bulls'' ''Heat'' ''202503262000''
            [spread_market ''-4.5'' ''-120'' ''-105'', moneyline_market ''EVEN'' ''-120'']]\<rparr>] [])
        \<lparr>now := (\<lambda>n. 1180)\<rparr>)
   = ([RegularURL], Inr (Some
       [(''home_team'', [PStr ''BULLS'']), (''away_team'', [PStr ''HEAT'']),
        (''start_time'', [PDatetime 1200]), (''spread'', [PFloat (- 4.5)]),
        (''home_spread_price'', [PInt (- 120)]), (''away_spread_price'', [PInt (- 105)]),
        (''home_moneyline'', [PInt 100]), (''away_moneyline'', [PInt (- 120)]),
        (''scrape_time'', [PDatetime 1180])]))
   \<and> map fst
       [(''home_team'', [PStr ''BULLS'']), (''away_team'', [PStr ''HEAT'']),
        (''start_time'', [PDatetime 1200]), (''spread'', [PFloat (- 4.5)]),
        (''home_spread_price'', [PInt (- 120)]), (''away_spread_price'', [PInt (- 105)]),
        (''home_moneyline'', [PInt 100]), (''away_moneyline'', [PInt (- 120)]),
        (''scrape_time'', [PDatetime 1180])] = column_names
   \<and> list_all (\<lambda>vals. length vals = 1)
       (map snd
         [(''home_team'', [PStr ''BULLS'']), (''away_team'', [PStr ''HEAT'']),
          (''start_time'', [PDatetime 1200]), (''spread'', [PFloat (- 4.5)]),
          (''home_spread_price'', [PInt (- 120)]), (''away_spread_price'', [PInt (- 105)]),
          (''home_moneyline'', [PInt 100]), (''away_moneyline'', [PInt (- 120)]),
          (''scrape_time'', [PDatetime 1180])])"
proof -
  let ?e = "(sample_env
        [\<lparr>events = [game_event ''Lakers'' ''Celtics'' ''202503261930''
            [spread_market ''-4.5'' ''-110'' ''-110'', moneyline_market ''-200'' ''+180''],
          game_event ''Bulls'' ''Heat'' ''202503262000''
            [spread_market ''-4.5'' ''-120'' ''-105'', moneyline_market ''EVEN'' ''-120'']]\<rparr>] [])
        \<lparr>now := (\<lambda>n. 1180)\<rparr>"
  have run: "odds_for_today ?e
   = ([RegularURL], Inr (Some
       [(''home_team'', [PStr ''BULLS'']), (''away_team'', [PStr ''HEAT'']),
        (''start_time'', [PDatetime 1200]), (''spread'', [PFloat (- 4.5)]),
        (''home_spread_price'', [PInt (- 120)]), (''away_spread_price'', [PInt (- 105)]),
        (''home_moneyline'', [PInt 100]), (''away_moneyline'', [PInt (- 120)]),
        (''scrape_time'', [PDatetime 1180])]))"
    by code_simp
  have emitted: "emitted_games ?e (scraped_games ?e) 1 = 1"
    by code_simp
  from odds_for_today_shape [OF run] show ?thesis
    unfolding emitted using run by blast
qed

subsection \<open>Optional markets\<close>

text \<open>
  C4.  The spread variables are never reset between games and there is no flag for a
  missing spread market.  A feed whose only game has a moneyline market but no point
  spread makes \<^verbatim>\<open>odds_for_today\<close> raise \<^verbatim>\<open>UnboundLocalError\<close>; a game without a point
  spread that follows a game with one gets that game's spread and spread prices.
\<close>

theorem odds_for_today_missing_spread:
  "odds_for_today
     (sample_env
        [\<lparr>events = [game_event ''Lakers'' ''Celtics'' ''202503261930''
            [moneyline_market ''-200'' ''+180'']]\<rparr>] [])
   = ([RegularURL], Inl UnboundLocalError)
   \<and> odds_for_today
     (sample_env
        [\<lparr>events = [game_event ''Lakers'' ''Celtics'' ''202503261930''
            [spread_market ''-4.5'' ''-110'' ''-110'', moneyline_market ''-200'' ''+180''],
          game_event ''Bulls'' ''Heat'' ''202503262000''
            [moneyline_market ''EVEN'' ''-120'']]\<rparr>] [])
   = ([RegularURL], Inr (Some
       [(''home_team'', [PStr ''LAKERS'', PStr ''BULLS'']),
        (''away_team'', [PStr ''CELTICS'', PStr ''HEAT'']),
        (''start_time'', [PDatetime 1170, PDatetime 1200]),
        (''spread'', [PFloat (- 4.5), PFloat (- 4.5)]),
        (''home_spread_price'', [PInt (- 110), PInt (- 110)]),
        (''away_spread_price'', [PInt (- 110), PInt (- 110)]),
        (''home_moneyline'', [PInt (- 200), PInt 100]),
        (''away_moneyline'', [PInt 180, PInt (- 120)]),
        (''scrape_time'', [PDatetime 0, PDatetime 0])]))"
  by code_simp

subsection \<open>\<^verbatim>\<open>parse_teams\<close>\<close>

text \<open>
  What \<^verbatim>\<open>parse_teams\<close> does, case by case: more than two competitors raise; otherwise it
  raises exactly when the home name is empty and the away name is not, because its test
  reads \<^verbatim>\<open>(not home_team == "") or away_team == ""\<close>.
\<close>

theorem parse_teams_too_many:
  "length comps > 2 \<Longrightarrow> parse_teams comps = Inl (Exception ''Unexpected objects in competitors'')"
  by (simp add: parse_teams_def)

theorem parse_teams_too_many_witness:
  "parse_teams [\<lparr>name = ''Lakers'', home = True\<rparr>, \<lparr>name = ''Celtics'', home = False\<rparr>,
                \<lparr>name = ''Bulls'', home = False\<rparr>]
   = Inl (Exception ''Unexpected objects in competitors'')"
  using parse_teams_too_many
    [of "[\<lparr>name = ''Lakers'', home = True\<rparr>, \<lparr>name = ''Celtics'', home = False\<rparr>,
          \<lparr>name = ''Bulls'', home = False\<rparr>]"]
  by simp

lemma parse_teams_home_away:
  "parse_teams [\<lparr>name = h, home = True\<rparr>, \<lparr>name = a, home = False\<rparr>] =
     (if h = [] \<and> a \<noteq> []
      then Inl (Exception ''Competitors was not properly parsed. Missing data.'')
      else Inr (upper h, upper a))"
  by (simp add: parse_teams_def)

text \<open>
  C5.  A competitors list of at most two entries from which no team name is extracted
  (the loop leaves both names empty) does not raise: \<^verbatim>\<open>parse_teams\<close> returns the pair of
  empty strings.  The empty list is such a list, and so are a home and an away
  competitor with empty names.
\<close>

theorem parse_teams_no_names:
  assumes "length comps \<le> 2" and "teams_loop comps ('''', '''') = ('''', '''')"
  shows "parse_teams comps = Inr ('''', '''')"
  using assms by (simp add: parse_teams_def upper_def)

theorem parse_teams_no_names_witness:
  "parse_teams [] = Inr ('''', '''')
   \<and> parse_teams [\<lparr>name = '''', home = True\<rparr>, \<lparr>name = '''', home = False\<rparr>] = Inr ('''', '''')"
  using parse_teams_no_names [of "[]"]
    parse_teams_no_names [of "[\<lparr>name = '''', home = True\<rparr>, \<lparr>name = '''', home = False\<rparr>]"]
  by simp

subsection \<open>\<^verbatim>\<open>parse_moneyline\<close>\<close>

lemma py_int_EVEN: "py_int ''EVEN'' = Inl ValueError"
  by code_simp

text \<open>
  An American price of \<open>EVEN\<close> is read as 100: with \<open>EVEN\<close> on the home side and a
  price that parses on the away side, \<^verbatim>\<open>parse_moneyline\<close> returns 100 and that price.
\<close>

theorem parse_moneyline_even:
  assumes "py_int a = Inr v"
  shows "parse_moneyline (moneyline_market ''EVEN'' a) = Inr (PInt 100, PInt v)"
  using assms by (auto simp: parse_moneyline_def moneyline_market_def py_int_EVEN)

theorem parse_moneyline_even_witness:
  "parse_moneyline (moneyline_market ''EVEN'' ''-120'') = Inr (PInt 100, PInt (- 120))"
proof -
  have "py_int ''-120'' = Inr (- 120)"
    by code_simp
  from parse_moneyline_even [OF this] show ?thesis .
qed

text \<open>
  C6.  A moneyline market whose only outcome is the away side, with a price that parses,
  makes \<^verbatim>\<open>parse_moneyline\<close> raise; \<^verbatim>\<open>odds_for_today\<close> raises with it and no record is
  produced.  An empty price string on one side raises \<^verbatim>\<open>ValueError\<close> from \<^verbatim>\<open>int\<close>.  (A
  market whose only outcome is the home side does give a record with a null away
  moneyline.)
\<close>

theorem parse_moneyline_missing_home:
  assumes "py_int p = Inr v"
  shows "parse_moneyline
     \<lparr>market_description = d, period_description = pd,
      outcomes = [\<lparr>outcome_type = ''A'',
                   outcome_price = \<lparr>american = p, handicap = hc\<rparr>\<rparr>]\<rparr>
   = Inl (Exception ''Moneyline was not properly parsed. Missing data.'')"
  using assms by (simp add: parse_moneyline_def)

theorem parse_moneyline_missing_home_witness:
  "parse_moneyline
     \<lparr>market_description = ''Moneyline'', period_description = ''Match'',
      outcomes = [\<lparr>outcome_type = ''A'',
                   outcome_price = \<lparr>american = ''+150'', handicap = None\<rparr>\<rparr>]\<rparr>
   = Inl (Exception ''Moneyline was not properly parsed. Missing data.'')
   \<and> odds_for_today
     (sample_env
        [\<lparr>events = [game_event ''Lakers'' ''Celtics'' ''202503261930''
            [spread_market ''-4.5'' ''-110'' ''-110'',
             \<lparr>market_description = ''Moneyline'', period_description = ''Match'',
              outcomes = [\<lparr>outcome_type = ''A'',
                           outcome_price = \<lparr>american = ''+150'', handicap = None\<rparr>\<rparr>]\<rparr>]]\<rparr>] [])
   = ([RegularURL], Inl (Exception ''Moneyline was not properly parsed. Missing data.''))
   \<and> parse_moneyline (moneyline_market [] ''+150'') = Inl ValueError"
proof -
  have p: "py_int ''+150'' = Inr 150"
    by code_simp
  have run: "odds_for_today
     (sample_env
        [\<lparr>events = [game_event ''Lakers'' ''Celtics'' ''202503261930''
            [spread_market ''-4.5'' ''-110'' ''-110'',
             \<lparr>market_description = ''Moneyline'', period_description = ''Match'',
              outcomes = [\<lparr>outcome_type = ''A'',
                           outcome_price = \<lparr>american = ''+150'', handicap = None\<rparr>\<rparr>]\<rparr>]]\<rparr>] [])
   = ([RegularURL], Inl (Exception ''Moneyline was not properly parsed. Missing data.''))"
    by code_simp
  have empty: "parse_moneyline (moneyline_market [] ''+150'') = Inl ValueError"
    by code_simp
  from parse_moneyline_missing_home [OF p] run empty show ?thesis by simp
qed

lemma parse_moneyline_missing_away:
  "odds_for_today
     (sample_env
        [\<lparr>events = [game_event ''Lakers'' ''Celtics'' ''202503261930''
            [spread_market ''-4.5'' ''-110'' ''-110'',
             \<lparr>market_description = ''Moneyline'', period_description = ''Match'',
              outcomes = [\<lparr>outcome_type = ''H'',
                           outcome_price = \<lparr>american = ''-200'', handicap = None\<rparr>\<rparr>]\<rparr>]]\<rparr>] [])
   = ([RegularURL], Inr (Some
       [(''home_team'', [PStr ''LAKERS'']), (''away_team'', [PStr ''CELTICS'']),
        (''start_time'', [PDatetime 1170]), (''spread'', [PFloat (- 4.5)]),
        (''home_spread_price'', [PInt (- 110)]), (''away_spread_price'', [PInt (- 110)]),
        (''home_moneyline'', [PInt (- 200)]), (''away_moneyline'', [PNone]),
        (''scrape_time'', [PDatetime 0])]))"
  by code_simp

subsection \<open>The fallback to the playoff feed\<close>

lemma odds_for_today_primary_empty:
  assumes "get_json e RegularURL = []"
  shows "fst (odds_for_today e) = [RegularURL, PlayoffURL]"
  using assms
  by (simp add: odds_for_today_def bovada_json_request_def falsy_def Let_def
      split: option.splits list.splits sum.splits)

lemma odds_for_today_both_empty:
  assumes "get_json e RegularURL = []" and "get_json e PlayoffURL = []"
  shows "odds_for_today e = ([RegularURL, PlayoffURL], Inr None)"
  using assms
  by (simp add: odds_for_today_def bovada_json_request_def falsy_def Let_def)

lemma odds_for_today_primary_nonempty:
  assumes "get_json e RegularURL \<noteq> []"
  shows "fst (odds_for_today e) = [RegularURL]"
  using assms
  by (simp add: odds_for_today_def bovada_json_request_def falsy_def Let_def
      split: option.splits list.splits sum.splits)

lemma odds_for_today_no_games:
  assumes "get_json e RegularURL = doc # others" and "filter is_game (events doc) = []"
  shows "odds_for_today e = ([RegularURL], Inr None)"
  using assms
  by (simp add: odds_for_today_def bovada_json_request_def falsy_def Let_def)

lemma scrape_none:
  assumes "odds_for_today e = (requested, Inr None)"
  shows "scrape e = (requested, Inr ScrapeFalse)"
  using assms by (simp add: scrape_def)

text \<open>
  C7, as the code has it.  An empty primary payload makes the parser request the playoff
  feed, and when that is empty too \<^verbatim>\<open>odds_for_today\<close> returns \<^verbatim>\<open>None\<close> and \<^verbatim>\<open>scrape\<close>
  returns \<^verbatim>\<open>False\<close>, with no exception.  A non-empty primary payload is the only one
  requested; when its first document holds no game event \<^verbatim>\<open>odds_for_today\<close> returns
  \<^verbatim>\<open>None\<close> and \<^verbatim>\<open>scrape\<close> returns \<^verbatim>\<open>False\<close> without the playoff feed being asked.
\<close>

theorem odds_for_today_fallback:
  "(get_json e RegularURL = [] \<longrightarrow> fst (odds_for_today e) = [RegularURL, PlayoffURL])
   \<and> (get_json e RegularURL = [] \<and> get_json e PlayoffURL = [] \<longrightarrow>
        odds_for_today e = ([RegularURL, PlayoffURL], Inr None)
        \<and> scrape e = ([RegularURL, PlayoffURL], Inr ScrapeFalse))
   \<and> (get_json e RegularURL \<noteq> [] \<longrightarrow> fst (odds_for_today e) = [RegularURL])
   \<and> (get_json e RegularURL \<noteq> []
        \<and> filter is_game (events (hd (get_json e RegularURL))) = [] \<longrightarrow>
        odds_for_today e = ([RegularURL], Inr None)
        \<and> scrape e = ([RegularURL], Inr ScrapeFalse))"
proof (intro conjI impI)
  assume "get_json e RegularURL = []"
  then show "fst (odds_for_today e) = [RegularURL, PlayoffURL]"
    by (rule odds_for_today_primary_empty)
next
  assume "get_json e RegularURL = [] \<and> get_json e PlayoffURL = []"
  then show "odds_for_today e = ([RegularURL, PlayoffURL], Inr None)"
    by (simp add: odds_for_today_both_empty)
  then show "scrape e = ([RegularURL, PlayoffURL], Inr ScrapeFalse)"
    by (rule scrape_none)
next
  assume "get_json e RegularURL \<noteq> []"
  then show "fst (odds_for_today e) = [RegularURL]"
    by (rule odds_for_today_primary_nonempty)
next
  assume a: "get_json e RegularURL \<noteq> []
    \<and> filter is_game (events (hd (get_json e RegularURL))) = []"
  then obtain doc others where d: "get_json e RegularURL = doc # others"
    by (cases "get_json e RegularURL") auto
  with a have "filter is_game (events doc) = []" by simp
  with d show "odds_for_today e = ([RegularURL], Inr None)"
    by (rule odds_for_today_no_games)
  then show "scrape e = ([RegularURL], Inr ScrapeFalse)"
    by (rule scrape_none)
qed

theorem odds_for_today_fallback_witness:
  "odds_for_today (sample_env [] []) = ([RegularURL, PlayoffURL], Inr None)
   \<and> scrape (sample_env [] []) = ([RegularURL, PlayoffURL], Inr ScrapeFalse)
   \<and> fst (odds_for_today (sample_env []
        [\<lparr>events = [game_event ''Lakers'' ''Celtics'' ''202503261930''
            [spread_market ''-4.5'' ''-110'' ''-110'', moneyline_market ''-200'' ''+180'']]\<rparr>]))
       = [RegularURL, PlayoffURL]
   \<and> scrape (sample_env [\<lparr>events = []\<rparr>] []) = ([RegularURL], Inr ScrapeFalse)"
  using odds_for_today_fallback [of "sample_env [] []"]
    odds_for_today_fallback [of "sample_env []
        [\<lparr>events = [game_event ''Lakers'' ''Celtics'' ''202503261930''
            [spread_market ''-4.5'' ''-110'' ''-110'', moneyline_market ''-200'' ''+180'']]\<rparr>]"]
    odds_for_today_fallback [of "sample_env [\<lparr>events = []\<rparr>] []"]
  by (simp add: sample_env_def)

text \<open>
  C7 as stated fails: a primary payload that is not empty but holds no game event is
  answered with \<^verbatim>\<open>None\<close> at once; the playoff feed, which has a game here, is not
  requested.
\<close>

theorem odds_for_today_no_fallback_without_games:
  "get_json (sample_env [\<lparr>events = []\<rparr>]
        [\<lparr>events = [game_event ''Lakers'' ''Celtics'' ''202503261930''
            [spread_market ''-4.5'' ''-110'' ''-110'', moneyline_market ''-200'' ''+180'']]\<rparr>])
      RegularURL = [\<lparr>events = []\<rparr>]
   \<and> filter is_game (events \<lparr>events = []\<rparr>) = []
   \<and> PlayoffURL \<notin> set (fst (odds_for_today (sample_env [\<lparr>events = []\<rparr>]
        [\<lparr>events = [game_event ''Lakers'' ''Celtics'' ''202503261930''
            [spread_market ''-4.5'' ''-110'' ''-110'', moneyline_market ''-200'' ''+180'']]\<rparr>])))
   \<and> odds_for_today (sample_env [\<lparr>events = []\<rparr>]
        [\<lparr>events = [game_event ''Lakers'' ''Celtics'' ''202503261930''
            [spread_market ''-4.5'' ''-110'' ''-110'', moneyline_market ''-200'' ''+180'']]\<rparr>])
      = ([RegularURL], Inr None)"
  by (simp add: odds_for_today_def bovada_json_request_def falsy_def sample_env_def Let_def)

section \<open>The odds table: results\<close>

lemma fold_removeAll: "fold removeAll xs t = filter (\<lambda>r. r \<notin> set xs) t"
proof (induction xs arbitrary: t)
  case Nil
  then show ?case by simp
next
  case (Cons x xs)
  have "fold removeAll (x # xs) t = fold removeAll xs (removeAll x t)"
    by simp
  also have "\<dots> = filter (\<lambda>r. r \<notin> set xs) (removeAll x t)"
    by (rule Cons.IH)
  also have "\<dots> = filter (\<lambda>r. r \<notin> set (x # xs)) t"
    by (induction t) auto
  finally show ?case .
qed

lemma delete_existing:
  "(if length (filter P t) > 0 then fold removeAll (filter P t) t else t) = filter (\<lambda>r. \<not> P r) t"
proof (cases "filter P t = []")
  case True
  then have "\<forall>r \<in> set t. \<not> P r" by (simp add: filter_empty_conv)
  with True show ?thesis by simp
next
  case False
  have "filter (\<lambda>r. r \<notin> set (filter P t)) t = filter (\<lambda>r. \<not> P r) t"
    by (rule filter_cong) auto
  with False show ?thesis by (simp add: fold_removeAll)
qed

lemma odds_loop_result:
  assumes "\<forall>row \<in> set rows. length (filter (scheduled row) sched_tbl) = 1"
  shows "odds_loop sched_tbl rows odds_tbl row_objects =
           Inr (filter (\<lambda>r. \<forall>row \<in> set rows. \<not> same_game row r) odds_tbl,
                row_objects @ map (with_game_id sched_tbl) rows)"
  using assms
proof (induction rows arbitrary: odds_tbl row_objects)
  case Nil
  then show ?case by simp
next
  case (Cons row rest)
  from Cons.prems obtain g where g: "filter (scheduled row) sched_tbl = [g]"
    by (auto simp: length_Suc_conv)
  from Cons.prems have rest: "\<forall>row \<in> set rest. length (filter (scheduled row) sched_tbl) = 1"
    by simp
  have "odds_loop sched_tbl (row # rest) odds_tbl row_objects =
          odds_loop sched_tbl rest (filter (\<lambda>r. \<not> same_game row r) odds_tbl)
            (row_objects @ [with_game_id sched_tbl row])"
  proof -
    have del:
      "(if length (filter (same_game row) odds_tbl) > 0
        then fold removeAll (filter (same_game row) odds_tbl) odds_tbl else odds_tbl)
       = filter (\<lambda>r. \<not> same_game row r) odds_tbl"
      by (rule delete_existing)
    show ?thesis
      by (simp only: odds_loop.simps Let_def del) (simp add: g with_game_id_def)
  qed
  also have "\<dots> = Inr (filter (\<lambda>r. \<forall>row \<in> set rest. \<not> same_game row r)
                         (filter (\<lambda>r. \<not> same_game row r) odds_tbl),
                       (row_objects @ [with_game_id sched_tbl row])
                         @ map (with_game_id sched_tbl) rest)"
    by (rule Cons.IH [OF rest])
  also have "\<dots> = Inr (filter (\<lambda>r. \<forall>row \<in> set (row # rest). \<not> same_game row r) odds_tbl,
                       row_objects @ map (with_game_id sched_tbl) (row # rest))"
    by (simp add: conj_commute)
  finally show ?case .
qed

lemma same_game_with_game_id: "same_game row (with_game_id sched_tbl r) = same_game row r"
  by (simp add: same_game_def with_game_id_def)

text \<open>
  C9.  Let every row handed to \<^verbatim>\<open>update_odds_table\<close> have exactly one scheduled game (the
  game identity is the schedule's key), and let \<open>row\<close> be the one row for its game
  identity among them.  Then the call returns normally, every odds row that had this
  identity before is gone, and exactly one row with this identity is in the table
  afterwards: the new row, carrying the id of its scheduled game.
\<close>

theorem update_odds_table_one_row:
  assumes sched: "\<forall>r \<in> set rows. length (filter (scheduled r) sched_tbl) = 1"
    and new: "row \<in> set rows"
    and once: "length (filter (same_game row) rows) = 1"
  shows "\<exists>odds_tbl'. update_odds_table odds_tbl sched_tbl rows = Inr odds_tbl'
           \<and> filter (same_game row) odds_tbl' = [with_game_id sched_tbl row]"
proof -
  from new have ne: "rows \<noteq> []" by auto
  let ?kept = "filter (\<lambda>r. \<forall>row \<in> set rows. \<not> same_game row r) odds_tbl"
  have res: "update_odds_table odds_tbl sched_tbl rows
               = Inr (?kept @ map (with_game_id sched_tbl) rows)"
    using ne by (simp add: update_odds_table_def odds_loop_result [OF sched])
  have gone: "filter (same_game row) ?kept = []"
    using new by (auto simp: filter_empty_conv)
  from once obtain r where r: "filter (same_game row) rows = [r]"
    by (auto simp: length_Suc_conv)
  have "row \<in> set (filter (same_game row) rows)"
    using new by (simp add: same_game_def)
  with r have "r = row" by simp
  with r have "filter (same_game row) (map (with_game_id sched_tbl) rows)
                 = [with_game_id sched_tbl row]"
    by (simp add: filter_map comp_def same_game_with_game_id)
  with gone res show ?thesis by simp
qed

theorem update_odds_table_one_row_witness:
  "\<exists>odds_tbl'.
     update_odds_table
       [\<lparr>home_team = ''LAKERS'', away_team = ''CELTICS'', start_time = 1170,
         odds = [PFloat (- 4.5)], game_id = Some 7\<rparr>,
        \<lparr>home_team = ''BULLS'', away_team = ''HEAT'', start_time = 1200,
         odds = [PFloat 2], game_id = Some 8\<rparr>,
        \<lparr>home_team = ''LAKERS'', away_team = ''CELTICS'', start_time = 1170,
         odds = [PFloat (- 5)], game_id = Some 7\<rparr>]
       [\<lparr>sched_id = 7, sched_home_team = ''LAKERS'', sched_away_team = ''CELTICS'',
         sched_start_time = 1170\<rparr>,
        \<lparr>sched_id = 8, sched_home_team = ''BULLS'', sched_away_team = ''HEAT'',
         sched_start_time = 1200\<rparr>]
       [\<lparr>home_team = ''LAKERS'', away_team = ''CELTICS'', start_time = 1170,
         odds = [PFloat (- 6)], game_id = None\<rparr>]
     = Inr odds_tbl'
     \<and> filter (same_game \<lparr>home_team = ''LAKERS'', away_team = ''CELTICS'', start_time = 1170,
                            odds = [PFloat (- 6)], game_id = None\<rparr>) odds_tbl'
       = [\<lparr>home_team = ''LAKERS'', away_team = ''CELTICS'', start_time = 1170,
           odds = [PFloat (- 6)], game_id = Some 7\<rparr>]"
proof -
  let ?row = "\<lparr>home_team = ''LAKERS'', away_team = ''CELTICS'', start_time = 1170,
               odds = [PFloat (- 6)], game_id = None\<rparr>"
  let ?sched = "[\<lparr>sched_id = 7, sched_home_team = ''LAKERS'', sched_away_team = ''CELTICS'',
                  sched_start_time = 1170\<rparr>,
                 \<lparr>sched_id = 8, sched_home_team = ''BULLS'', sched_away_team = ''HEAT'',
                  sched_start_time = 1200\<rparr>]"
  have sched: "\<forall>r \<in> set [?row]. length (filter (scheduled r) ?sched) = 1"
    by (simp add: scheduled_def)
  have new: "?row \<in> set [?row]" by simp
  have once: "length (filter (same_game ?row) [?row]) = 1"
    by (simp add: same_game_def)
  have gid: "with_game_id ?sched ?row = ?row\<lparr>game_id := Some 7\<rparr>"
    by (simp add: with_game_id_def scheduled_def)
  from update_odds_table_one_row [OF sched new once] gid show ?thesis by simp
qed

section \<open>Persisting predictions: results\<close>

lemma read_global_year: "read_global ''year'' = Inl NameError"
  by (simp add: read_global_def bets_globals_def)

text \<open>
  Whatever the day's games, the model and the database do, \<^verbatim>\<open>predict_games_on_date\<close>
  raises \<^verbatim>\<open>NameError\<close> (the undefined \<^verbatim>\<open>year\<close>) before it persists anything, with the
  session untouched; and its \<^verbatim>\<open>try\<close> statement, taken alone, raises \<^verbatim>\<open>TypeError\<close> from the
  call of \<^verbatim>\<open>insert_predictions\<close> with one argument too many and closes the session.  So
  the body of the \<^verbatim>\<open>try\<close> statement never raises \<^verbatim>\<open>IntegrityError\<close>, and the handler for
  it (rollback, settlement pass, commit; lines 358-361) is never entered.
\<close>

theorem predict_games_on_date_raises:
  "predict_games_on_date (Inr games) regression commit = (Inl NameError, [])
   \<and> persist_predictions commit = (Inl TypeError, [Close])"
  by (simp add: predict_games_on_date_def predict_games_on_day_def read_global_year
      persist_predictions_def call_positional_def)

end
